theory Spec2Isabelle
  imports Complex_Main
begin

section \<open>Python values used by the front end\<close>

text \<open>
  A Python \<open>float\<close> is either a finite number or one of the three special values
  that \<open>json.loads\<close> also accepts (\<open>Infinity\<close>, \<open>-Infinity\<close>, \<open>NaN\<close>).
  A finite float is represented by the real number it denotes.  The integer literals \<open>0\<close> and
  \<open>1\<close> that the script compares floats with are represented by \<open>Finite 0\<close> and
  \<open>Finite 1\<close>: Python compares an \<open>int\<close> with a \<open>float\<close> by value.
\<close>

datatype pyfloat = Finite real | PosInf | NegInf | NaN

text \<open>Python's \<open><\<close> and \<open><=\<close> on floats: every comparison with \<open>NaN\<close> is false.\<close>

fun py_lt :: "pyfloat \<Rightarrow> pyfloat \<Rightarrow> bool" where
  "py_lt (Finite a) (Finite b) = (a < b)"
| "py_lt (Finite a) PosInf = True"
| "py_lt NegInf (Finite b) = True"
| "py_lt NegInf PosInf = True"
| "py_lt _ _ = False"

fun py_le :: "pyfloat \<Rightarrow> pyfloat \<Rightarrow> bool" where
  "py_le (Finite a) (Finite b) = (a \<le> b)"
| "py_le (Finite a) PosInf = True"
| "py_le NegInf (Finite b) = True"
| "py_le NegInf PosInf = True"
| "py_le PosInf PosInf = True"
| "py_le NegInf NegInf = True"
| "py_le _ _ = False"

text \<open>
  The builtins \<open>min(a, b)\<close> and \<open>max(a, b)\<close> keep their first argument unless the
  second one is strictly smaller (strictly larger).
\<close>

definition py_min :: "pyfloat \<Rightarrow> pyfloat \<Rightarrow> pyfloat" where
  "py_min a b = (if py_lt b a then b else a)"

definition py_max :: "pyfloat \<Rightarrow> pyfloat \<Rightarrow> pyfloat" where
  "py_max a b = (if py_lt a b then b else a)"

text \<open>
  \<open>x / 5.0\<close> on a float.  The quotient of a finite float is rounded to a float
  again; \<open>rnd\<close> is that rounding, a parameter.  What is used of it is what holds
  for the rounding of IEEE 754 arithmetic: it is monotone, and it leaves the floats
  0 and 1 as they are.
\<close>

definition rounding :: "(real \<Rightarrow> real) \<Rightarrow> bool" where
  "rounding rnd = (mono rnd \<and> rnd 0 = 0 \<and> rnd 1 = 1)"

fun div5 :: "(real \<Rightarrow> real) \<Rightarrow> pyfloat \<Rightarrow> pyfloat" where
  "div5 rnd (Finite a) = Finite (rnd (a / 5))"
| "div5 rnd PosInf = PosInf"
| "div5 rnd NegInf = NegInf"
| "div5 rnd NaN = NaN"

section \<open>The response entities\<close>

text \<open>
  One element of \<open>data["recommendations"]\<close>, with the field types of the backend's
  response: \<open>year\<close> is an integer or \<open>null\<close> (Python \<open>None\<close>), the two scores are
  floats.  Python \<open>str\<close> values are represented by the bytes of their UTF-8
  encoding.
\<close>

record movie =
  rank :: int
  movie_id :: int
  title :: string
  genres :: string
  year :: "int option"
  ranking_score :: pyfloat
  retrieval_score :: pyfloat

section \<open>View-model transform (the loop body over the recommendations)\<close>

text \<open>\<open>score_norm = max(0, min(1, movie["ranking_score"] / 5.0))\<close>\<close>

definition score_norm :: "(real \<Rightarrow> real) \<Rightarrow> movie \<Rightarrow> pyfloat" where
  "score_norm rnd m = py_max (Finite 0) (py_min (Finite 1) (div5 rnd (ranking_score m)))"

text \<open>\<open>ret_norm = max(0, min(1, movie["retrieval_score"]))\<close>\<close>

definition ret_norm :: "movie \<Rightarrow> pyfloat" where
  "ret_norm m = py_max (Finite 0) (py_min (Finite 1) (retrieval_score m))"

text \<open>
  The specification's \<open>clamp(x, lo, hi)\<close> on real numbers, written from its words:
  a value below the lower bound becomes the lower bound, a value above the upper
  bound becomes the upper bound, any other value is unchanged.
\<close>

definition clamp :: "real \<Rightarrow> real \<Rightarrow> real \<Rightarrow> real" where
  "clamp x lo hi = (if x < lo then lo else if hi < x then hi else x)"

text \<open>
  \<open>s.split(sep)\<close> for a separator of one character: the pieces between the
  occurrences of the separator, in order; the result is never the empty list.
  \<open>sep.join(xs)\<close> puts the separator between consecutive elements.  The separator
  \<open>|\<close> is an ASCII character, so cutting the UTF-8 bytes at it cuts the text at
  the same places.
\<close>

fun py_split :: "'a \<Rightarrow> 'a list \<Rightarrow> 'a list list" where
  "py_split sep [] = [[]]"
| "py_split sep (c # cs) =
     (if c = sep then [] # py_split sep cs
      else (case py_split sep cs of [] \<Rightarrow> [[c]] | w # ws \<Rightarrow> (c # w) # ws))"

fun py_join :: "'a list \<Rightarrow> 'a list list \<Rightarrow> 'a list" where
  "py_join sep [] = []"
| "py_join sep [x] = x"
| "py_join sep (x # y # ys) = x @ sep @ py_join sep (y # ys)"

text \<open>
  \<open>genres_html = "".join(f'<span class="genre-tag">{g}</span>'
     for g in movie["genres"].split("|"))\<close>
\<close>

definition genre_tag :: \<open>string \<Rightarrow> string\<close> where
  \<open>genre_tag g = ''<span class="genre-tag">'' @ g @ ''</span>''\<close>

definition genres_html :: "movie \<Rightarrow> string" where
  "genres_html m = concat (map genre_tag (py_split (CHR ''|'') (genres m)))"

text \<open>\<open>str(n)\<close> for a Python \<open>int\<close>: its decimal digits, with a minus sign when negative.\<close>

fun str_nat :: "nat \<Rightarrow> string" where
  "str_nat n = (if n < 10 then [''0123456789'' ! n]
                else str_nat (n div 10) @ [''0123456789'' ! (n mod 10)])"

definition str_int :: "int \<Rightarrow> string" where
  "str_int i = (if i < 0 then CHR ''-'' # str_nat (nat (- i)) else str_nat (nat i))"

text \<open>
  The truth value and the \<open>str()\<close> of \<open>movie["year"]\<close>, an \<open>int\<close> or \<open>None\<close>:
  \<open>None\<close> and \<open>0\<close> are false, every other integer is true.
\<close>

fun truthy :: "int option \<Rightarrow> bool" where
  "truthy None = False"
| "truthy (Some y) = (y \<noteq> 0)"

fun py_str :: "int option \<Rightarrow> string" where
  "py_str None = ''None''"
| "py_str (Some y) = str_int y"

text \<open>\<open>year_str = str(movie["year"]) if movie["year"] else "N/A"\<close>\<close>

definition year_str :: "movie \<Rightarrow> string" where
  "year_str m = (if truthy (year m) then py_str (year m) else ''N/A'')"

section \<open>API helpers\<close>

text \<open>
  What \<open>r.json()\<close> returns: \<open>JNull\<close> is Python's \<open>None\<close>, \<open>JObj\<close> a \<open>dict\<close> given
  by its items (the keys of a \<open>dict\<close> are distinct), \<open>JArr\<close> a \<open>list\<close>.
\<close>

datatype json = JNull | JBool bool | JInt int | JFloat pyfloat | JStr string
  | JArr "json list" | JObj "(string \<times> json) list"

text \<open>
  An exception raised inside a \<open>try\<close> block, with its \<open>str()\<close>.  \<open>ConnectionError\<close>
  stands for an instance of \<open>requests.exceptions.ConnectionError\<close> or of one of its
  subclasses, \<open>OtherException\<close> for an instance of any other subclass of
  \<open>Exception\<close> (a read timeout, a body that is not JSON, an \<open>AttributeError\<close>).
\<close>

datatype exn = ConnectionError string | OtherException string

datatype http_verb = GET | POST

record request =
  verb :: http_verb
  url :: string
  json_arg :: "json option"
  timeout :: nat

text \<open>
  A response as the helpers read it: its status code, and what calling \<open>r.json()\<close> on
  it does (return a value or raise).  \<open>r.ok\<close> is false exactly for the status codes
  from 400 to 599, for which \<open>raise_for_status()\<close> raises.
\<close>

record response =
  status_code :: nat
  json_result :: "exn + json"

definition ok :: "response \<Rightarrow> bool" where
  "ok r = (\<not> (400 \<le> status_code r \<and> status_code r < 600))"

text \<open>
  The network is what answers a request: a response, or an exception raised by
  \<open>requests.get\<close> / \<open>requests.post\<close>.  Every request sent is appended to a log,
  which is the state the helpers thread.
\<close>

type_synonym network = "request \<Rightarrow> exn + response"

definition send :: "network \<Rightarrow> request \<Rightarrow> request list \<Rightarrow> (exn + response) \<times> request list" where
  "send net req sent = (net req, sent @ [req])"

definition API_URL :: string where
  "API_URL = ''http://localhost:8000''"

text \<open>
  The body of \<open>fetch_stats\<close>, before the decorator:
  \<^verbatim>\<open>
    try:
        r = requests.get(f"{API_URL}/stats", timeout=5)
        return r.json() if r.ok else None
    except Exception:
        return None
  \<close>
\<close>

definition stats_request :: request where
  "stats_request = \<lparr>verb = GET, url = API_URL @ ''/stats'', json_arg = None, timeout = 5\<rparr>"

definition fetch_stats_body :: "network \<Rightarrow> request list \<Rightarrow> json \<times> request list" where
  "fetch_stats_body net sent =
     (case send net stats_request sent of
        (Inl e, sent') \<Rightarrow> (JNull, sent')
      | (Inr r, sent') \<Rightarrow>
          (if ok r then (case json_result r of Inl e \<Rightarrow> (JNull, sent') | Inr j \<Rightarrow> (j, sent'))
           else (JNull, sent')))"





text \<open>
  \<^verbatim>\<open>
    def fetch_recommendations(user_id: int, top_k: int, top_n: int):
        try:
            payload = {"user_id": user_id, "top_k_retrieve": top_k, "top_n_final": top_n}
            r = requests.post(f"{API_URL}/recommend", json=payload, timeout=30)
            if r.ok:
                return r.json(), None
            return None, r.json().get("detail", "Unknown error")
        except requests.exceptions.ConnectionError:
            return None, "Cannot connect to API. Make sure FastAPI is running on port 8000."
        except Exception as e:
            return None, str(e)
  \<close>
  The two \<open>except\<close> clauses, in their order:
\<close>

fun handler :: "exn \<Rightarrow> json \<times> json" where
  "handler (ConnectionError s) =
     (JNull, JStr ''Cannot connect to API. Make sure FastAPI is running on port 8000.'')"
| "handler (OtherException s) = (JNull, JStr s)"

text \<open>
  \<open>x.get(key, default)\<close>: only a \<open>dict\<close> has the method; on any other value the
  attribute lookup raises \<open>AttributeError\<close>.
\<close>

fun type_name :: "json \<Rightarrow> string" where
  "type_name JNull = ''NoneType''"
| "type_name (JBool b) = ''bool''"
| "type_name (JInt i) = ''int''"
| "type_name (JFloat x) = ''float''"
| "type_name (JStr s) = ''str''"
| "type_name (JArr xs) = ''list''"
| "type_name (JObj kvs) = ''dict''"

fun py_get :: "json \<Rightarrow> string \<Rightarrow> json \<Rightarrow> exn + json" where
  "py_get (JObj kvs) k d = Inr (case map_of kvs k of Some v \<Rightarrow> v | None \<Rightarrow> d)"
| "py_get j k d =
     Inl (OtherException ([CHR 0x27] @ type_name j @ [CHR 0x27] @
       '' object has no attribute '' @ [CHR 0x27] @ ''get'' @ [CHR 0x27]))"

definition payload :: "int \<Rightarrow> int \<Rightarrow> int \<Rightarrow> json" where
  "payload user_id top_k top_n =
     JObj [(''user_id'', JInt user_id), (''top_k_retrieve'', JInt top_k),
           (''top_n_final'', JInt top_n)]"

definition recommend_request :: "int \<Rightarrow> int \<Rightarrow> int \<Rightarrow> request" where
  "recommend_request user_id top_k top_n =
     \<lparr>verb = POST, url = API_URL @ ''/recommend'',
      json_arg = Some (payload user_id top_k top_n), timeout = 30\<rparr>"

definition fetch_recommendations ::
  "network \<Rightarrow> int \<Rightarrow> int \<Rightarrow> int \<Rightarrow> request list \<Rightarrow> (json \<times> json) \<times> request list" where
  "fetch_recommendations net user_id top_k top_n sent =
     (case send net (recommend_request user_id top_k top_n) sent of
           (Inl e, sent') \<Rightarrow> (handler e, sent')
         | (Inr r, sent') \<Rightarrow>
             (if ok r
              then (case json_result r of
                      Inl e \<Rightarrow> (handler e, sent')
                    | Inr j \<Rightarrow> ((j, JNull), sent'))
              else (case json_result r of
                      Inl e \<Rightarrow> (handler e, sent')
                    | Inr j \<Rightarrow>
                        (case py_get j ''detail'' (JStr ''Unknown error'') of
                           Inl e \<Rightarrow> (handler e, sent')
                         | Inr d \<Rightarrow> ((JNull, d), sent')))))"

text \<open>
  \<^verbatim>\<open>
    def check_api_health():
        try:
            r = requests.get(f"{API_URL}/", timeout=3)
            return r.ok
        except Exception:
            return False
  \<close>
\<close>

definition health_request :: request where
  "health_request = \<lparr>verb = GET, url = API_URL @ ''/'', json_arg = None, timeout = 3\<rparr>"

definition check_api_health :: "network \<Rightarrow> request list \<Rightarrow> bool \<times> request list" where
  "check_api_health net sent =
     (case send net health_request sent of
        (Inl e, sent') \<Rightarrow> (False, sent')
      | (Inr r, sent') \<Rightarrow> (ok r, sent'))"

section \<open>Sidebar\<close>






text \<open>What the sidebar returned in one run of the script.\<close>

record sidebar =
  user_id :: int
  top_n :: int
  top_k :: int
  recommend_btn :: bool



section \<open>Export\<close>
















section \<open>Sample inputs\<close>

text \<open>Backends used to instantiate the statements below: one that answers every
  request with 404 and a \<open>detail\<close>, one that refuses the connection, one whose read
  times out, one that answers 502 with a body that is not JSON, and one that answers
  200 with a JSON object.\<close>

definition net_not_found :: network where
  "net_not_found = (\<lambda>req. Inr \<lparr>status_code = 404,
     json_result = Inr (JObj [(''detail'', JStr ''User not found'')])\<rparr>)"

definition net_refused :: network where
  "net_refused = (\<lambda>req. Inl (ConnectionError ''Connection refused''))"

definition net_timed_out :: network where
  "net_timed_out = (\<lambda>req. Inl (OtherException ''Read timed out.''))"

definition net_bad_gateway :: network where
  "net_bad_gateway = (\<lambda>req. Inr \<lparr>status_code = 502,
     json_result = Inl (OtherException ''Expecting value: line 1 column 1 (char 0)'')\<rparr>)"

definition net_up :: network where
  "net_up = (\<lambda>req. Inr \<lparr>status_code = 200,
     json_result = Inr (JObj [(''total_users'', JInt 6040), (''total_movies'', JInt 3883),
                              (''total_genres'', JInt 18)])\<rparr>)"



text \<open>A rounding used to instantiate \<open>rnd\<close>: to the nearest multiple of one eighth.\<close>

definition to_eighths :: "real \<Rightarrow> real" where
  "to_eighths x = real_of_int \<lfloor>x * 8 + 1 / 2\<rfloor> / 8"

text \<open>A response element used to instantiate the statements below.\<close>

definition toy_story :: movie where
  "toy_story = \<lparr>rank = 1, movie_id = 1, title = ''Toy Story (1995)'',
     genres = ''Animation|Comedy'', year = Some 1995,
     ranking_score = Finite 4.5, retrieval_score = Finite 0.8\<rparr>"

section \<open>Properties\<close>

subsection \<open>Score bars\<close>

lemma rounding_to_eighths: "rounding to_eighths"
proof -
  have "mono to_eighths"
    by (rule monoI) (simp add: to_eighths_def divide_right_mono floor_mono)
  then show ?thesis by (simp add: rounding_def to_eighths_def)
qed

lemma score_norm_cases:
  "score_norm rnd m =
     (case ranking_score m of
        Finite x \<Rightarrow> Finite (clamp (rnd (x / 5)) 0 1)
      | PosInf \<Rightarrow> Finite 1
      | NegInf \<Rightarrow> Finite 0
      | NaN \<Rightarrow> Finite 1)"
  by (cases "ranking_score m") (auto simp: score_norm_def py_min_def py_max_def clamp_def)

lemma clamp_unit: "0 \<le> clamp x 0 1 \<and> clamp x 0 1 \<le> 1"
  by (simp add: clamp_def)

lemma clamp_mono: "x \<le> y \<Longrightarrow> clamp x 0 1 \<le> clamp y 0 1"
  by (simp add: clamp_def)

lemma ret_norm_cases:
  "ret_norm m =
     (case retrieval_score m of
        Finite x \<Rightarrow> Finite (clamp x 0 1)
      | PosInf \<Rightarrow> Finite 1
      | NegInf \<Rightarrow> Finite 0
      | NaN \<Rightarrow> Finite 1)"
  by (cases "retrieval_score m") (auto simp: ret_norm_def py_min_def py_max_def clamp_def)

text \<open>
  Claim C1.  For every ranking score, \<open>score_norm\<close> is a number between 0 and 1;
  it does not decrease when the ranking score grows; the ranking score 5.0 gives
  1 and every ranking score that is at most 0 gives 0; on a finite score it is the
  specification's \<open>clamp(ranking_score / 5.0, 0, 1)\<close>, the quotient being the
  rounded one.  No input is rejected: the infinities and \<open>NaN\<close> give 1, 0 and 1.
  This holds whatever the rounding of the division is, as long as it is monotone
  and leaves 0 and 1 unchanged.
\<close>

theorem score_norm_clamps:
  "rounding rnd \<longrightarrow>
     (\<exists>r. score_norm rnd m = Finite r \<and> 0 \<le> r \<and> r \<le> 1)
     \<and> (py_le (ranking_score m) (ranking_score m')
          \<longrightarrow> py_le (score_norm rnd m) (score_norm rnd m'))
     \<and> (ranking_score m = Finite 5 \<longrightarrow> score_norm rnd m = Finite 1)
     \<and> (py_le (ranking_score m) (Finite 0) \<longrightarrow> score_norm rnd m = Finite 0)
     \<and> (ranking_score m = Finite x \<longrightarrow> score_norm rnd m = Finite (clamp (rnd (x / 5)) 0 1))"
proof (intro conjI impI)
  assume r: "rounding rnd"
  then have mono: "a \<le> b \<Longrightarrow> rnd a \<le> rnd b" for a b
    by (simp add: rounding_def mono_def)
  from r have zero: "rnd 0 = 0" and one: "rnd 1 = 1"
    by (simp_all add: rounding_def)
  show "\<exists>r. score_norm rnd m = Finite r \<and> 0 \<le> r \<and> r \<le> 1"
    by (cases "ranking_score m") (simp_all add: score_norm_cases clamp_unit)
  {
    assume le: "py_le (ranking_score m) (ranking_score m')"
    show "py_le (score_norm rnd m) (score_norm rnd m')"
    proof (cases "ranking_score m")
      case (Finite a)
      show ?thesis
      proof (cases "ranking_score m'")
        case (Finite b)
        with le \<open>ranking_score m = Finite a\<close> have "a / 5 \<le> b / 5" by simp
        then have "clamp (rnd (a / 5)) 0 1 \<le> clamp (rnd (b / 5)) 0 1"
          by (intro clamp_mono mono)
        with Finite \<open>ranking_score m = Finite a\<close> show ?thesis
          by (simp add: score_norm_cases)
      next
        case PosInf
        with \<open>ranking_score m = Finite a\<close> show ?thesis
          by (simp add: score_norm_cases clamp_unit)
      next
        case NegInf
        with le \<open>ranking_score m = Finite a\<close> show ?thesis by simp
      next
        case NaN
        with le \<open>ranking_score m = Finite a\<close> show ?thesis by simp
      qed
    next
      case PosInf
      with le show ?thesis
        by (cases "ranking_score m'") (simp_all add: score_norm_cases)
    next
      case NegInf
      with le show ?thesis
        by (cases "ranking_score m'") (simp_all add: score_norm_cases clamp_unit)
    next
      case NaN
      with le show ?thesis by simp
    qed
  }
  {
    assume "ranking_score m = Finite 5"
    then show "score_norm rnd m = Finite 1"
      by (simp add: score_norm_cases clamp_def one)
  }
  {
    assume le: "py_le (ranking_score m) (Finite 0)"
    show "score_norm rnd m = Finite 0"
    proof (cases "ranking_score m")
      case (Finite a)
      with le have "a / 5 \<le> 0" by simp
      from mono [OF this] zero have "rnd (a / 5) \<le> 0" by simp
      with Finite show ?thesis by (simp add: score_norm_cases clamp_def)
    qed (use le in \<open>simp_all add: score_norm_cases\<close>)
  }
  {
    assume "ranking_score m = Finite x"
    then show "score_norm rnd m = Finite (clamp (rnd (x / 5)) 0 1)"
      by (simp add: score_norm_cases)
  }
qed

theorem score_norm_clamps_witness:
  "rounding to_eighths
   \<and> score_norm to_eighths toy_story = Finite 0.875
   \<and> py_le (ranking_score toy_story) (ranking_score (toy_story\<lparr>ranking_score := Finite 7\<rparr>))
   \<and> py_le (score_norm to_eighths toy_story)
        (score_norm to_eighths (toy_story\<lparr>ranking_score := Finite 7\<rparr>))
   \<and> ranking_score (toy_story\<lparr>ranking_score := Finite 5\<rparr>) = Finite 5
   \<and> score_norm to_eighths (toy_story\<lparr>ranking_score := Finite 5\<rparr>) = Finite 1
   \<and> py_le (ranking_score (toy_story\<lparr>ranking_score := Finite (- 2)\<rparr>)) (Finite 0)
   \<and> score_norm to_eighths (toy_story\<lparr>ranking_score := Finite (- 2)\<rparr>) = Finite 0
   \<and> score_norm to_eighths (toy_story\<lparr>ranking_score := NaN\<rparr>) = Finite 1"
proof -
  have eighths: "to_eighths (4.5 / 5) = 0.875"
    by (simp add: to_eighths_def)
  from rounding_to_eighths eighths
    score_norm_clamps [of to_eighths toy_story "toy_story\<lparr>ranking_score := Finite 7\<rparr>" "4.5"]
    score_norm_clamps [of to_eighths "toy_story\<lparr>ranking_score := Finite 5\<rparr>" toy_story 5]
    score_norm_clamps [of to_eighths "toy_story\<lparr>ranking_score := Finite (- 2)\<rparr>" toy_story "- 2"]
    score_norm_clamps [of to_eighths "toy_story\<lparr>ranking_score := NaN\<rparr>" toy_story 0]
  show ?thesis
    by (simp add: toy_story_def clamp_def score_norm_cases)
qed

text \<open>
  Claim C6.  A retrieval score below 0 gives \<open>ret_norm = 0\<close>, one above 1 gives 1, and
  one between 0 and 1 is returned unchanged; the result is always a number between
  0 and 1, and on a finite score it is the specification's
  \<open>clamp(retrieval_score, 0, 1)\<close>.
\<close>

theorem ret_norm_clamps:
  "(py_lt (retrieval_score m) (Finite 0) \<longrightarrow> ret_norm m = Finite 0)
   \<and> (py_lt (Finite 1) (retrieval_score m) \<longrightarrow> ret_norm m = Finite 1)
   \<and> (py_le (Finite 0) (retrieval_score m) \<and> py_le (retrieval_score m) (Finite 1)
        \<longrightarrow> ret_norm m = retrieval_score m)
   \<and> (\<exists>r. ret_norm m = Finite r \<and> 0 \<le> r \<and> r \<le> 1)
   \<and> (retrieval_score m = Finite x \<longrightarrow> ret_norm m = Finite (clamp x 0 1))"
  by (cases "retrieval_score m") (simp_all add: ret_norm_cases clamp_def)

theorem ret_norm_clamps_witness:
  "py_lt (retrieval_score (toy_story\<lparr>retrieval_score := Finite (- 0.25)\<rparr>)) (Finite 0)
   \<and> ret_norm (toy_story\<lparr>retrieval_score := Finite (- 0.25)\<rparr>) = Finite 0
   \<and> py_lt (Finite 1) (retrieval_score (toy_story\<lparr>retrieval_score := Finite 1.5\<rparr>))
   \<and> ret_norm (toy_story\<lparr>retrieval_score := Finite 1.5\<rparr>) = Finite 1
   \<and> py_le (Finite 0) (retrieval_score toy_story) \<and> py_le (retrieval_score toy_story) (Finite 1)
   \<and> ret_norm toy_story = Finite 0.8
   \<and> ret_norm (toy_story\<lparr>retrieval_score := PosInf\<rparr>) = Finite 1"
  using ret_norm_clamps [of "toy_story\<lparr>retrieval_score := Finite (- 0.25)\<rparr>" "- 0.25"]
    ret_norm_clamps [of "toy_story\<lparr>retrieval_score := Finite 1.5\<rparr>" "1.5"]
    ret_norm_clamps [of toy_story "0.8"]
    ret_norm_clamps [of "toy_story\<lparr>retrieval_score := PosInf\<rparr>" 0]
  by (simp add: toy_story_def)

subsection \<open>Genre tags\<close>

lemma py_split_not_Nil: "py_split sep s \<noteq> []"
  by (induction s) (auto split: list.splits)

lemma py_join_Cons:
  "ws \<noteq> [] \<Longrightarrow> py_join sep (w # ws) = w @ sep @ py_join sep ws"
  by (cases ws) simp_all

lemma py_join_split: "py_join [sep] (py_split sep s) = s"
proof (induction s)
  case Nil
  show ?case by simp
next
  case (Cons c cs)
  show ?case
  proof (cases "c = sep")
    case True
    with Cons show ?thesis
      by (simp add: py_join_Cons py_split_not_Nil)
  next
    case False
    obtain w ws where split_cs: "py_split sep cs = w # ws"
      using py_split_not_Nil [of sep cs] by (cases "py_split sep cs") auto
    have "py_join [sep] ((c # w) # ws) = c # py_join [sep] (w # ws)"
      by (cases ws) simp_all
    with Cons False split_cs show ?thesis by simp
  qed
qed

lemma py_split_pieces: "g \<in> set (py_split sep s) \<Longrightarrow> sep \<notin> set g"
proof (induction s arbitrary: g)
  case Nil
  then show ?case by simp
next
  case (Cons c cs)
  then show ?case
    by (cases "py_split sep cs") (auto split: if_splits)
qed

lemma py_split_no_sep: "sep \<notin> set w \<Longrightarrow> py_split sep w = [w]"
  by (induction w) auto

lemma py_split_append:
  "sep \<notin> set w \<Longrightarrow> py_split sep (w @ sep # rest) = w # py_split sep rest"
  by (induction w) auto

lemma py_split_join:
  "tags \<noteq> [] \<Longrightarrow> \<forall>g\<in>set tags. sep \<notin> set g \<Longrightarrow> py_split sep (py_join [sep] tags) = tags"
proof (induction tags)
  case Nil
  then show ?case by simp
next
  case (Cons t ts)
  show ?case
  proof (cases ts)
    case Nil
    with Cons.prems show ?thesis by (simp add: py_split_no_sep)
  next
    case (Cons u us)
    with Cons.prems Cons.IH show ?thesis
      by (simp add: py_split_append)
  qed
qed

text \<open>
  Claim C4.  Splitting the genres string at \<open>|\<close> and joining the pieces with
  \<open>|\<close> gives back the string, character for character, and no piece contains
  the delimiter.  The split keeps order and duplicates: when the genres string is
  the join of a non-empty list of tags none of which contains \<open>|\<close>, the split
  returns exactly that list, and the rendered HTML is one tag element per list
  element, in the order of the list.
\<close>

theorem genre_split_join:
  "py_join ''|'' (py_split (CHR ''|'') (genres m)) = genres m
   \<and> (\<forall>g\<in>set (py_split (CHR ''|'') (genres m)). CHR ''|'' \<notin> set g)
   \<and> (tags \<noteq> [] \<and> (\<forall>g\<in>set tags. CHR ''|'' \<notin> set g) \<and> genres m = py_join ''|'' tags
        \<longrightarrow> py_split (CHR ''|'') (genres m) = tags
            \<and> genres_html m = concat (map genre_tag tags))"
  using py_split_pieces [of _ "CHR ''|''" "genres m"] py_split_join [of tags "CHR ''|''"]
  by (auto simp: py_join_split genres_html_def)

theorem genre_split_join_witness:
  "py_split (CHR ''|'') (genres toy_story) = [''Animation'', ''Comedy'']
   \<and> py_join ''|'' [''Animation'', ''Comedy''] = genres toy_story
   \<and> CHR ''|'' \<notin> set ''Animation'' \<and> CHR ''|'' \<notin> set ''Comedy''
   \<and> genres (toy_story\<lparr>genres := ''Drama|Drama|War''\<rparr>) = py_join ''|'' [''Drama'', ''Drama'', ''War'']
   \<and> py_split (CHR ''|'') (genres (toy_story\<lparr>genres := ''Drama|Drama|War''\<rparr>))
        = [''Drama'', ''Drama'', ''War'']
   \<and> genres_html (toy_story\<lparr>genres := ''Drama|Drama|War''\<rparr>)
        = genre_tag ''Drama'' @ genre_tag ''Drama'' @ genre_tag ''War''"
  using genre_split_join [of toy_story "[''Animation'', ''Comedy'']"]
    genre_split_join [of "toy_story\<lparr>genres := ''Drama|Drama|War''\<rparr>" "[''Drama'', ''Drama'', ''War'']"]
  by (simp add: toy_story_def)

subsection \<open>Year label\<close>

lemma digit_char: "k < 10 \<Longrightarrow> ''0123456789'' ! k \<in> set ''0123456789''"
  by (rule nth_mem) simp

lemma str_nat_digits: "set (str_nat n) \<subseteq> set ''0123456789''"
proof (induction n rule: str_nat.induct)
  case (1 n)
  show ?case
  proof (cases "n < 10")
    case True
    then have "str_nat n = [''0123456789'' ! n]" by simp
    with digit_char [OF True] show ?thesis by simp
  next
    case False
    then have eq: "str_nat n = str_nat (n div 10) @ [''0123456789'' ! (n mod 10)]"
      by (subst str_nat.simps) simp
    have "''0123456789'' ! (n mod 10) \<in> set ''0123456789''"
      by (rule digit_char) simp
    with "1.IH" [OF False] eq show ?thesis by simp
  qed
qed

lemma str_int_not_placeholder: "str_int y \<noteq> ''N/A''"
proof
  assume eq: "str_int y = ''N/A''"
  show False
  proof (cases "y < 0")
    case True
    with eq show False by (simp add: str_int_def)
  next
    case False
    with eq have "str_nat (nat y) = ''N/A''" by (simp add: str_int_def)
    then have "CHR ''N'' \<in> set (str_nat (nat y))" by simp
    with str_nat_digits [of "nat y"] show False by auto
  qed
qed

text \<open>
  Claim C7.  The year label is the decimal rendering of the year when the year is an
  integer other than 0, and the placeholder \<open>N/A\<close> when the year is \<open>None\<close> or 0;
  the rendering of an integer is never the placeholder.
\<close>

theorem year_str_placeholder:
  "(year m = Some y \<and> y \<noteq> 0 \<longrightarrow> year_str m = str_int y)
   \<and> (year m = None \<or> year m = Some 0 \<longrightarrow> year_str m = ''N/A'')
   \<and> (year_str m = ''N/A'') = (year m = None \<or> year m = Some 0)"
  using str_int_not_placeholder
  by (cases "year m") (auto simp: year_str_def)

theorem year_str_placeholder_witness:
  "year toy_story = Some 1995 \<and> year_str toy_story = ''1995''
   \<and> year (toy_story\<lparr>year := None\<rparr>) = None \<and> year_str (toy_story\<lparr>year := None\<rparr>) = ''N/A''
   \<and> year_str (toy_story\<lparr>year := Some 0\<rparr>) = ''N/A''"
  using year_str_placeholder [of toy_story 1995]
    year_str_placeholder [of "toy_story\<lparr>year := None\<rparr>" 0]
    year_str_placeholder [of "toy_story\<lparr>year := Some 0\<rparr>" 0]
  by (simp add: toy_story_def str_int_def)

subsection \<open>Recommendation request\<close>

lemma fetch_recommendations_result:
  "fst (fetch_recommendations net u k n sent) =
     (case net (recommend_request u k n) of
        Inl e \<Rightarrow> handler e
      | Inr r \<Rightarrow>
          (case json_result r of
             Inl e \<Rightarrow> handler e
           | Inr j \<Rightarrow>
               if ok r then (j, JNull)
               else (case py_get j ''detail'' (JStr ''Unknown error'') of
                       Inl e \<Rightarrow> handler e
                     | Inr d \<Rightarrow> (JNull, d))))"
  by (simp add: fetch_recommendations_def send_def split: sum.splits)



text \<open>
  Claim C2.  When the response has an error status (\<open>r.ok\<close> is false) and its body
  is a JSON object, the error returned is the value under \<open>detail\<close>, and the text
  \<open>Unknown error\<close> when the object has no such key; a 404 with the body
  \<open>{"detail": "User not found"}\<close> gives exactly \<open>User not found\<close>.  A connection
  error gives the fixed message about starting FastAPI, whatever the exception's
  own text is.  Any other exception, raised by the request or by decoding the body,
  gives the exception's text.
\<close>

theorem fetch_recommendations_error_messages:
  "(net (recommend_request u k n) = Inr r \<and> \<not> ok r \<and> json_result r = Inr (JObj kvs)
    \<longrightarrow> fst (fetch_recommendations net u k n sent) =
          (JNull, case map_of kvs ''detail'' of Some d \<Rightarrow> d | None \<Rightarrow> JStr ''Unknown error''))
   \<and> (net (recommend_request u k n) = Inr r \<and> status_code r = 404
        \<and> json_result r = Inr (JObj [(''detail'', JStr ''User not found'')])
    \<longrightarrow> fst (fetch_recommendations net u k n sent) = (JNull, JStr ''User not found''))
   \<and> (net (recommend_request u k n) = Inl (ConnectionError s)
    \<longrightarrow> fst (fetch_recommendations net u k n sent) =
          (JNull, JStr ''Cannot connect to API. Make sure FastAPI is running on port 8000.''))
   \<and> (net (recommend_request u k n) = Inl (OtherException s)
    \<longrightarrow> fst (fetch_recommendations net u k n sent) = (JNull, JStr s))
   \<and> (net (recommend_request u k n) = Inr r \<and> json_result r = Inl (OtherException s)
    \<longrightarrow> fst (fetch_recommendations net u k n sent) = (JNull, JStr s))"
  by (simp add: fetch_recommendations_result ok_def)

theorem fetch_recommendations_error_messages_witness:
  "fst (fetch_recommendations net_not_found 1 200 10 []) = (JNull, JStr ''User not found'')
   \<and> fst (fetch_recommendations net_refused 1 200 10 []) =
        (JNull, JStr ''Cannot connect to API. Make sure FastAPI is running on port 8000.'')
   \<and> fst (fetch_recommendations net_timed_out 1 200 10 []) = (JNull, JStr ''Read timed out.'')
   \<and> fst (fetch_recommendations net_bad_gateway 1 200 10 []) =
        (JNull, JStr ''Expecting value: line 1 column 1 (char 0)'')"
  using fetch_recommendations_error_messages
      [where net = net_not_found and u = 1 and k = 200 and n = 10 and sent = "[]"
         and r = "\<lparr>status_code = 404,
                   json_result = Inr (JObj [(''detail'', JStr ''User not found'')])\<rparr>"
         and kvs = "[(''detail'', JStr ''User not found'')]"]
    fetch_recommendations_error_messages
      [where net = net_refused and u = 1 and k = 200 and n = 10 and sent = "[]"
         and s = "''Connection refused''"]
    fetch_recommendations_error_messages
      [where net = net_timed_out and u = 1 and k = 200 and n = 10 and sent = "[]"
         and s = "''Read timed out.''"]
    fetch_recommendations_error_messages
      [where net = net_bad_gateway and u = 1 and k = 200 and n = 10 and sent = "[]"
         and r = "\<lparr>status_code = 502,
                   json_result = Inl (OtherException ''Expecting value: line 1 column 1 (char 0)'')\<rparr>"
         and s = "''Expecting value: line 1 column 1 (char 0)''"]
  by (simp add: net_not_found_def net_refused_def net_timed_out_def net_bad_gateway_def ok_def)



subsection \<open>Statistics and their cache\<close>







subsection \<open>Request parameters\<close>









subsection \<open>Export\<close>





















subsection \<open>Further properties of the API helpers\<close>

text \<open>
  The health check answers \<open>True\<close> exactly when the request returned a response whose
  status is not an error status; an exception of the request gives \<open>False\<close>.
\<close>

theorem check_api_health_result:
  "fst (check_api_health net sent) =
     (case net health_request of Inl e \<Rightarrow> False | Inr r \<Rightarrow> ok r)"
  by (simp add: check_api_health_def send_def split: sum.splits)

theorem check_api_health_result_witness:
  "fst (check_api_health net_up []) = True
   \<and> fst (check_api_health net_not_found []) = False
   \<and> fst (check_api_health net_refused []) = False
   \<and> fst (check_api_health net_timed_out []) = False"
  using check_api_health_result [of net_up "[]"] check_api_health_result [of net_not_found "[]"]
    check_api_health_result [of net_refused "[]"] check_api_health_result [of net_timed_out "[]"]
  by (simp add: net_up_def net_not_found_def net_refused_def net_timed_out_def ok_def)

text \<open>
  No helper retries: whatever the network answers, a call of the health check, of
  the body of \<open>fetch_stats\<close> and of \<open>fetch_recommendations\<close> sends exactly one
  request.
\<close>

theorem single_attempt:
  "snd (check_api_health net sent) = sent @ [health_request]
   \<and> snd (fetch_stats_body net sent) = sent @ [stats_request]
   \<and> snd (fetch_recommendations net u k n sent) = sent @ [recommend_request u k n]"
  by (simp add: check_api_health_def fetch_stats_body_def fetch_recommendations_def send_def
        split: sum.splits)

theorem single_attempt_witness:
  "snd (check_api_health net_refused []) = [health_request]
   \<and> snd (fetch_stats_body net_bad_gateway []) = [stats_request]
   \<and> snd (fetch_recommendations net_not_found 42 200 10 []) = [recommend_request 42 200 10]"
  using single_attempt [of net_refused "[]"] single_attempt [of net_bad_gateway "[]"]
    single_attempt [of net_not_found "[]" 42 200 10]
  by simp

text \<open>
  The three calls as the script makes them: the health check is a GET of the root
  with a timeout of 3 seconds, the statistics a GET of \<open>/stats\<close> with 5 seconds, the
  recommendation a POST to \<open>/recommend\<close> with 30 seconds and the three parameters as
  its JSON body.
\<close>

theorem request_table:
  "health_request =
     \<lparr>verb = GET, url = ''http://localhost:8000/'', json_arg = None, timeout = 3\<rparr>
   \<and> stats_request =
     \<lparr>verb = GET, url = ''http://localhost:8000/stats'', json_arg = None, timeout = 5\<rparr>
   \<and> recommend_request u k n =
     \<lparr>verb = POST, url = ''http://localhost:8000/recommend'',
      json_arg = Some (JObj [(''user_id'', JInt u), (''top_k_retrieve'', JInt k),
                             (''top_n_final'', JInt n)]),
      timeout = 30\<rparr>"
  by (simp add: health_request_def stats_request_def recommend_request_def payload_def
        API_URL_def)

end
